theory Spec2Isabelle
  imports Main "HOL-Library.AList"
begin

section \<open>Python values, strings and exceptions\<close>

text \<open>
  A Python \<open>str\<close> is a sequence of Unicode code points. The escapes of JSON
  decode to code points beyond one byte, so a string is modelled as a list of code
  points and not as a list of 8-bit characters. \<open>py_str\<close> turns a literal of the
  theory into such a string, \<open>ch\<close> a single character into its code point.
\<close>

type_synonym py_str = "nat list"

type_synonym bytes = "nat list"

definition py_str :: "string \<Rightarrow> py_str" where
  "py_str cs = map of_char cs"

definition ch :: "char \<Rightarrow> nat" where
  "ch c = of_char c"

text \<open>
  The exception classes the module can meet. \<open>OtherException\<close> stands for any further
  class derived from \<open>Exception\<close>, \<open>OtherBaseException\<close> for any further class derived
  from \<open>BaseException\<close> only (as \<open>KeyboardInterrupt\<close>, \<open>SystemExit\<close> and
  \<open>GeneratorExit\<close> are). An exception is its class and its message.
\<close>

datatype exc_class =
    KeyboardInterrupt
  | SystemExit
  | GeneratorExit
  | OtherBaseException py_str
  | ValueError
  | JSONDecodeError
  | AttributeError
  | RecursionError
  | OtherException py_str

datatype py_exception = PyExc (exc_type: exc_class) (exc_msg: py_str)

text \<open>\<open>isinstance(e, Exception)\<close>, the test of \<open>except Exception\<close>.\<close>

fun isinstance_Exception :: "py_exception \<Rightarrow> bool" where
  "isinstance_Exception (PyExc KeyboardInterrupt m) = False"
| "isinstance_Exception (PyExc SystemExit m) = False"
| "isinstance_Exception (PyExc GeneratorExit m) = False"
| "isinstance_Exception (PyExc (OtherBaseException c) m) = False"
| "isinstance_Exception (PyExc ValueError m) = True"
| "isinstance_Exception (PyExc JSONDecodeError m) = True"
| "isinstance_Exception (PyExc AttributeError m) = True"
| "isinstance_Exception (PyExc RecursionError m) = True"
| "isinstance_Exception (PyExc (OtherException c) m) = True"

text \<open>
  \<open>isinstance(e, json.JSONDecodeError)\<close>, the test of \<open>except json.JSONDecodeError\<close>.
  The class derives from \<open>ValueError\<close>; a plain \<open>ValueError\<close> is not an instance of it.
\<close>

definition isinstance_JSONDecodeError :: "py_exception \<Rightarrow> bool" where
  "isinstance_JSONDecodeError e = (exc_type e = JSONDecodeError)"

text \<open>
  The values \<open>json.loads\<close> produces. A \<open>float\<close> is kept as the text handed to
  \<open>float()\<close>; a \<open>dict\<close> is an association list in insertion order with distinct keys.
\<close>

datatype py_value =
    PyNone
  | PyBool bool
  | PyInt int
  | PyFloat py_str
  | PyStr py_str
  | PyList "py_value list"
  | PyDict "(py_str \<times> py_value) list"

text \<open>\<open>dict(pairs)\<close>: a later pair replaces the value of an earlier equal key in place.\<close>

definition dict :: "(py_str \<times> py_value) list \<Rightarrow> (py_str \<times> py_value) list" where
  "dict pairs = foldl (\<lambda>d (k, v). AList.update k v d) [] pairs"

definition type_name :: "py_value \<Rightarrow> py_str" where
  "type_name v =
     (case v of
        PyNone \<Rightarrow> py_str ''NoneType''
      | PyBool b \<Rightarrow> py_str ''bool''
      | PyInt i \<Rightarrow> py_str ''int''
      | PyFloat f \<Rightarrow> py_str ''float''
      | PyStr s \<Rightarrow> py_str ''str''
      | PyList l \<Rightarrow> py_str ''list''
      | PyDict d \<Rightarrow> py_str ''dict'')"

text \<open>The error of reading an attribute that the type of a value does not have.\<close>

definition no_attribute :: "py_value \<Rightarrow> string \<Rightarrow> py_exception" where
  "no_attribute obj name =
     PyExc AttributeError
       ([0x27] @ type_name obj @ [0x27] @ py_str '' object has no attribute ''
          @ [0x27] @ py_str name @ [0x27])"

text \<open>
  \<open>obj.get(key, default)\<close>: the method exists on a \<open>dict\<close> only; on every other value
  the attribute lookup raises \<open>AttributeError\<close>.
\<close>

definition py_get :: "py_value \<Rightarrow> py_str \<Rightarrow> py_value \<Rightarrow> py_exception + py_value" where
  "py_get obj key dflt =
     (case obj of
        PyDict d \<Rightarrow> Inr (case map_of d key of Some v \<Rightarrow> v | None \<Rightarrow> dflt)
      | _ \<Rightarrow> Inl (no_attribute obj ''get''))"

section \<open>The standard library's JSON decoder\<close>

text \<open>
  \<open>json.loads\<close> on a \<open>str\<close>, after the decoder the interpreter runs (the scanner of
  \<open>_json.c\<close> under \<open>json/decoder.py\<close>): the functions work on the rest of the text
  where the library passes the text and an index. A malformed text is a
  \<open>JSONDecodeError\<close> with the library's message; the position it also carries is not
  modelled.

  Two limits of the interpreter end the decoder with errors that are not
  \<open>JSONDecodeError\<close>. The conversion of an integer literal of more than
  \<open>int_max_str_digits\<close> digits raises \<open>ValueError\<close> (4300 by default; 0 switches the
  limit off, and no literal of 640 digits or fewer is refused). Every object and
  array is entered through the recursion check, which raises \<open>RecursionError\<close> when
  the containers nest deeper than the room left under the recursion limit; and an
  error that the scanner raises from inside containers becomes a \<open>RecursionError\<close>
  when fewer than three levels of that room are left, since building the
  \<open>JSONDecodeError\<close> takes calls of its own. The room depends on the recursion
  limit and on the depth of the call stack. It is a parameter,
  \<open>recursion_headroom\<close>, counted above three levels: an operation reaches the
  decoder only after calls from the same frame (\<open>os.getenv\<close>, the client library)
  that went deeper than that.
\<close>

record interpreter =
  int_max_str_digits :: nat
  recursion_headroom :: nat

definition max_nesting :: "interpreter \<Rightarrow> nat" where
  "max_nesting interp = Suc (Suc (Suc (recursion_headroom interp)))"

text \<open>\<open>str(n)\<close> of a natural number.\<close>

fun str_nat :: "nat \<Rightarrow> py_str" where
  "str_nat n =
     (if n < 10 then [ch CHR ''0'' + n]
      else str_nat (n div 10) @ [ch CHR ''0'' + n mod 10])"

declare str_nat.simps [simp del]

definition int_digits_error :: "nat \<Rightarrow> nat \<Rightarrow> py_exception" where
  "int_digits_error limit digits =
     PyExc ValueError
       (py_str ''Exceeds the limit ('' @ str_nat limit
          @ py_str '' digits) for integer string conversion: value has '' @ str_nat digits
          @ py_str '' digits; use sys.set_int_max_str_digits() to increase the limit'')"

definition recursion_error :: "string \<Rightarrow> py_exception" where
  "recursion_error what =
     PyExc RecursionError
       (py_str ''maximum recursion depth exceeded while decoding a JSON '' @ py_str what
          @ py_str '' from a unicode string'')"

definition JSONDecodeError_msg :: "string \<Rightarrow> py_exception" where
  "JSONDecodeError_msg m = PyExc JSONDecodeError (py_str m)"

text \<open>
  An error \<open>e\<close> that the scanner raises where \<open>room\<close> containers may still be
  entered.
\<close>

definition raise_errmsg :: "nat \<Rightarrow> py_exception \<Rightarrow> py_exception" where
  "raise_errmsg room e =
     (if 3 \<le> room then e
      else if room = 1 then PyExc RecursionError (py_str ''maximum recursion depth exceeded'')
      else
        PyExc RecursionError
          (py_str ''maximum recursion depth exceeded while calling a Python object''))"

definition is_ws :: "nat \<Rightarrow> bool" where
  "is_ws c = (c = ch CHR '' '' \<or> c = 0x09 \<or> c = 0x0A \<or> c = 0x0D)"

definition skip_ws :: "py_str \<Rightarrow> py_str" where
  "skip_ws s = dropWhile is_ws s"

definition is_digit :: "nat \<Rightarrow> bool" where
  "is_digit c = (ch CHR ''0'' \<le> c \<and> c \<le> ch CHR ''9'')"

definition startswith :: "py_str \<Rightarrow> py_str \<Rightarrow> bool" where
  "startswith s p = (take (length p) s = p)"

definition hex_value :: "nat \<Rightarrow> nat option" where
  "hex_value c =
     (if ch CHR ''0'' \<le> c \<and> c \<le> ch CHR ''9'' then Some (c - ch CHR ''0'')
      else if ch CHR ''a'' \<le> c \<and> c \<le> ch CHR ''f'' then Some (c - ch CHR ''a'' + 10)
      else if ch CHR ''A'' \<le> c \<and> c \<le> ch CHR ''F'' then Some (c - ch CHR ''A'' + 10)
      else None)"

text \<open>The four hexadecimal digits of a Unicode escape.\<close>

definition decode_uXXXX :: "py_str \<Rightarrow> py_exception + nat" where
  "decode_uXXXX s =
     (case map hex_value (take 4 s) of
        [Some a, Some b, Some c, Some d] \<Rightarrow> Inr (((a * 16 + b) * 16 + c) * 16 + d)
      | _ \<Rightarrow> Inl (PyExc JSONDecodeError (py_str ''Invalid '' @ [0x5C] @ py_str ''uXXXX escape'')))"

text \<open>The table of one-letter escapes.\<close>

definition BACKSLASH :: "nat \<Rightarrow> nat option" where
  "BACKSLASH esc =
     (if esc = 0x22 then Some 0x22
      else if esc = 0x5C then Some 0x5C
      else if esc = ch CHR ''/'' then Some (ch CHR ''/'')
      else if esc = ch CHR ''b'' then Some 0x08
      else if esc = ch CHR ''f'' then Some 0x0C
      else if esc = ch CHR ''n'' then Some 0x0A
      else if esc = ch CHR ''r'' then Some 0x0D
      else if esc = ch CHR ''t'' then Some 0x09
      else None)"

text \<open>
  The text after a backslash: the decoded character and the rest. A Unicode escape
  needs its four hexadecimal digits and one more character after them. A high
  surrogate is joined with an escaped low surrogate that follows it, when at least
  seven characters follow the first escape.
\<close>

definition scan_escape :: "py_str \<Rightarrow> py_exception + (nat \<times> py_str)" where
  "scan_escape s =
     (case s of
        [] \<Rightarrow> Inl (JSONDecodeError_msg ''Unterminated string starting at'')
      | esc # s1 \<Rightarrow>
          if esc = ch CHR ''u'' then
            (if length s1 < 5 then
               Inl (PyExc JSONDecodeError (py_str ''Invalid '' @ [0x5C] @ py_str ''uXXXX escape''))
             else
               case decode_uXXXX s1 of
                 Inl e \<Rightarrow> Inl e
               | Inr uni \<Rightarrow>
                   let s2 = drop 4 s1 in
                   if 0xD800 \<le> uni \<and> uni \<le> 0xDBFF \<and> 6 < length s2
                        \<and> take 2 s2 = [0x5C, ch CHR ''u''] then
                     (case decode_uXXXX (drop 2 s2) of
                        Inl e \<Rightarrow> Inl e
                      | Inr uni2 \<Rightarrow>
                          if 0xDC00 \<le> uni2 \<and> uni2 \<le> 0xDFFF then
                            Inr (0x10000 + ((uni - 0xD800) * 1024 + (uni2 - 0xDC00)), drop 6 s2)
                          else Inr (uni, s2))
                   else Inr (uni, s2))
          else
            (case BACKSLASH esc of
               None \<Rightarrow> Inl (PyExc JSONDecodeError (py_str ''Invalid '' @ [0x5C] @ py_str ''escape''))
             | Some c \<Rightarrow> Inr (c, s1)))"

lemma scan_escape_length: "scan_escape s = Inr (c, r) \<Longrightarrow> length r < length s"
  by (auto simp: scan_escape_def Let_def split: list.splits sum.splits if_splits option.splits)

text \<open>
  \<open>scanstring\<close>, entered after the opening quote: the decoded string and the text after
  the closing quote. Control characters are refused (\<open>strict\<close> is on by default).
\<close>

function scanstring :: "py_str \<Rightarrow> py_str \<Rightarrow> py_exception + (py_str \<times> py_str)" where
  "scanstring chunks [] = Inl (JSONDecodeError_msg ''Unterminated string starting at'')"
| "scanstring chunks (c # s) =
     (if c = 0x22 then Inr (chunks, s)
      else if c = 0x5C then
        (case scan_escape s of
           Inl e \<Rightarrow> Inl e
         | Inr (c', s') \<Rightarrow> scanstring (chunks @ [c']) s')
      else if c < 0x20 then Inl (JSONDecodeError_msg ''Invalid control character at'')
      else scanstring (chunks @ [c]) s)"
  by pat_completeness auto
termination
  by (relation "measure (\<lambda>(chunks, s). length s)") (auto dest: scan_escape_length)

text \<open>
  Numbers: an optional minus sign and either a single zero or a digit from one to nine
  with any further digits; then a fraction (a dot and at least one digit) and an
  exponent (the letter e, an optional sign and at least one digit), each taken only
  when complete.
\<close>

definition match_integer :: "py_str \<Rightarrow> (py_str \<times> py_str) option" where
  "match_integer s =
     (let (sign, s1) =
        (case s of c # r \<Rightarrow> if c = ch CHR ''-'' then ([c], r) else ([], s) | [] \<Rightarrow> ([], s))
      in case s1 of
           [] \<Rightarrow> None
         | d # s2 \<Rightarrow>
             if d = ch CHR ''0'' then Some (sign @ [d], s2)
             else if is_digit d then Some (sign @ d # takeWhile is_digit s2, dropWhile is_digit s2)
             else None)"

definition match_frac :: "py_str \<Rightarrow> py_str \<times> py_str" where
  "match_frac s =
     (case s of
        c # s1 \<Rightarrow>
          if c = ch CHR ''.'' \<and> takeWhile is_digit s1 \<noteq> []
          then (c # takeWhile is_digit s1, dropWhile is_digit s1)
          else ([], s)
      | [] \<Rightarrow> ([], s))"

definition match_exp :: "py_str \<Rightarrow> py_str \<times> py_str" where
  "match_exp s =
     (case s of
        c # s1 \<Rightarrow>
          if c = ch CHR ''e'' \<or> c = ch CHR ''E'' then
            (let (sign, s2) =
               (case s1 of
                  g # r \<Rightarrow> if g = ch CHR ''-'' \<or> g = ch CHR ''+'' then ([g], r) else ([], s1)
                | [] \<Rightarrow> ([], s1))
             in if takeWhile is_digit s2 \<noteq> []
                then (c # sign @ takeWhile is_digit s2, dropWhile is_digit s2)
                else ([], s))
          else ([], s)
      | [] \<Rightarrow> ([], s))"

text \<open>
  \<open>int(integer)\<close> on an optional minus sign and decimal digits: the digits are
  counted against the limit of the interpreter before they are converted.
\<close>

definition parse_int :: "interpreter \<Rightarrow> py_str \<Rightarrow> py_exception + int" where
  "parse_int interp integer =
     (let negative = (case integer of c # ds \<Rightarrow> c = ch CHR ''-'' | [] \<Rightarrow> False);
          digits = (if negative then tl integer else integer);
          limit = int_max_str_digits interp;
          magnitude = int (foldl (\<lambda>n d. 10 * n + (d - ch CHR ''0'')) 0 digits)
      in if 640 < length digits \<and> 0 < limit \<and> limit < length digits
         then Inl (int_digits_error limit (length digits))
         else Inr (if negative then - magnitude else magnitude))"

text \<open>The three groups of the number pattern, and the rest of the text.\<close>

definition match_number :: "py_str \<Rightarrow> ((py_str \<times> py_str \<times> py_str) \<times> py_str) option" where
  "match_number s =
     (case match_integer s of
        None \<Rightarrow> None
      | Some (integer, s1) \<Rightarrow>
          (let (frac, s2) = match_frac s1; (exp, s3) = match_exp s2
           in Some ((integer, frac, exp), s3)))"

text \<open>The values that are neither strings nor containers.\<close>

definition scan_atom :: "interpreter \<Rightarrow> py_str \<Rightarrow> py_exception + (py_value \<times> py_str)" where
  "scan_atom interp s =
     (if startswith s (py_str ''null'') then Inr (PyNone, drop 4 s)
      else if startswith s (py_str ''true'') then Inr (PyBool True, drop 4 s)
      else if startswith s (py_str ''false'') then Inr (PyBool False, drop 5 s)
      else case match_number s of
             Some ((integer, frac, exp), r) \<Rightarrow>
               if frac = [] \<and> exp = [] then
                 (case parse_int interp integer of
                    Inl e \<Rightarrow> Inl e
                  | Inr n \<Rightarrow> Inr (PyInt n, r))
               else Inr (PyFloat (integer @ frac @ exp), r)
           | None \<Rightarrow>
               if startswith s (py_str ''NaN'') then Inr (PyFloat (py_str ''NaN''), drop 3 s)
               else if startswith s (py_str ''Infinity'')
                 then Inr (PyFloat (py_str ''Infinity''), drop 8 s)
               else if startswith s (py_str ''-Infinity'')
                 then Inr (PyFloat (py_str ''-Infinity''), drop 9 s)
               else Inl (JSONDecodeError_msg ''Expecting value''))"

lemma scanstring_length: "scanstring chunks s = Inr (v, r) \<Longrightarrow> length r < length s"
proof (induction chunks s rule: scanstring.induct)
  case (1 chunks)
  then show ?case by simp
next
  case (2 chunks c s)
  then show ?case
    by (fastforce split: if_splits sum.splits prod.splits dest: scan_escape_length)
qed

lemma skip_ws_length: "length (skip_ws s) \<le> length s"
  by (simp add: skip_ws_def length_dropWhile_le)

lemma skip_ws_Cons_length: "skip_ws s = c # r \<Longrightarrow> length r < length s"
  using skip_ws_length [of s] by simp

lemma match_integer_length: "match_integer s = Some (i, r) \<Longrightarrow> length r < length s"
  by (auto simp: match_integer_def Let_def le_imp_less_Suc length_dropWhile_le less_Suc_eq_le
      split: list.splits if_splits intro: le_SucI)

lemma match_frac_length: "match_frac s = (f, r) \<Longrightarrow> length r \<le> length s"
  by (auto simp: match_frac_def length_dropWhile_le split: list.splits if_splits intro: le_SucI)

lemma match_exp_length: "match_exp s = (f, r) \<Longrightarrow> length r \<le> length s"
  by (auto simp: match_exp_def Let_def length_dropWhile_le
      split: list.splits if_splits intro: le_SucI order_trans [OF length_dropWhile_le])

lemma match_number_length: "match_number s = Some (g, r) \<Longrightarrow> length r < length s"
  by (auto simp: match_number_def Let_def split: option.splits prod.splits if_splits
      dest!: match_integer_length match_frac_length match_exp_length)

lemma startswith_drop_length:
  "startswith s p \<Longrightarrow> p \<noteq> [] \<Longrightarrow> 0 < n \<Longrightarrow> length (drop n s) < length s"
  by (cases s) (auto simp: startswith_def)

lemma scan_atom_length: "scan_atom interp s = Inr (v, r) \<Longrightarrow> length r < length s"
  by (auto simp: scan_atom_def py_str_def split: if_splits option.splits sum.splits
      dest: match_number_length intro!: startswith_drop_length)

text \<open>
  \<open>scan_once\<close> reads one value at the head of the text and returns it with the rest;
  \<open>room\<close> is the number of containers that may still be entered.
  \<open>JSONObject\<close> is the loop over the members of an object, entered after the opening
  quote of a key with the pairs read so far; \<open>JSONArray\<close> is the loop over the elements
  of an array, entered at an element with the values read so far. The library's
  \<open>StopIteration\<close> of \<open>scan_once\<close> becomes the error \<open>Expecting value\<close> at each of its
  callers, so it is raised as that error at once. The functions terminate: a
  value that was read has consumed at least one character, so every call is on a
  shorter text, or on the same text when the loop over an array reads an element.
\<close>

function scan_once ::
    "interpreter \<Rightarrow> nat \<Rightarrow> py_str \<Rightarrow> py_exception + (py_value \<times> py_str)"
  and JSONObject ::
    "interpreter \<Rightarrow> nat \<Rightarrow> (py_str \<times> py_value) list \<Rightarrow> py_str \<Rightarrow>
       py_exception + (py_value \<times> py_str)"
  and JSONArray ::
    "interpreter \<Rightarrow> nat \<Rightarrow> py_value list \<Rightarrow> py_str \<Rightarrow>
       py_exception + (py_value \<times> py_str)"
where
  "scan_once interp room s =
     (case s of
        [] \<Rightarrow> Inl (JSONDecodeError_msg ''Expecting value'')
      | nextchar # s1 \<Rightarrow>
          if nextchar = 0x22 then
            (case scanstring [] s1 of
               Inl e \<Rightarrow> Inl (raise_errmsg room e)
             | Inr (v, r) \<Rightarrow> Inr (PyStr v, r))
          else if nextchar = ch CHR ''{'' then
            (if room = 0 then Inl (recursion_error ''object'')
             else
               case skip_ws s1 of
                 [] \<Rightarrow>
                   Inl (raise_errmsg (room - 1)
                          (JSONDecodeError_msg
                             ''Expecting property name enclosed in double quotes''))
               | c # s2 \<Rightarrow>
                   if c = ch CHR ''}'' then Inr (PyDict [], s2)
                   else if c = 0x22 then JSONObject interp (room - 1) [] s2
                   else
                     Inl (raise_errmsg (room - 1)
                            (JSONDecodeError_msg
                               ''Expecting property name enclosed in double quotes'')))
          else if nextchar = ch CHR ''['' then
            (if room = 0 then Inl (recursion_error ''array'')
             else
               case skip_ws s1 of
                 [] \<Rightarrow> Inl (JSONDecodeError_msg ''Expecting value'')
               | c # s2 \<Rightarrow>
                   if c = ch CHR '']'' then Inr (PyList [], s2)
                   else JSONArray interp (room - 1) [] (c # s2))
          else scan_atom interp s)"
| "JSONObject interp room pairs s =
     (case scanstring [] s of
        Inl e \<Rightarrow> Inl (raise_errmsg room e)
      | Inr (key, s1) \<Rightarrow>
          (case skip_ws s1 of
             [] \<Rightarrow> Inl (raise_errmsg room (JSONDecodeError_msg ''Expecting ':' delimiter''))
           | c # s2 \<Rightarrow>
               if c \<noteq> ch CHR '':'' then
                 Inl (raise_errmsg room (JSONDecodeError_msg ''Expecting ':' delimiter''))
               else
                 (case scan_once interp room (skip_ws s2) of
                    Inl e \<Rightarrow> Inl e
                  | Inr (val, s3) \<Rightarrow>
                      (case skip_ws s3 of
                         [] \<Rightarrow>
                           Inl (raise_errmsg room
                                  (JSONDecodeError_msg ''Expecting ',' delimiter''))
                       | nextchar # s4 \<Rightarrow>
                           if nextchar = ch CHR ''}'' then
                             Inr (PyDict (dict (pairs @ [(key, val)])), s4)
                           else if nextchar \<noteq> ch CHR '','' then
                             Inl (raise_errmsg room
                                    (JSONDecodeError_msg ''Expecting ',' delimiter''))
                           else
                             (case skip_ws s4 of
                                [] \<Rightarrow>
                                  Inl (raise_errmsg room
                                         (JSONDecodeError_msg
                                            ''Expecting property name enclosed in double quotes''))
                              | q # s5 \<Rightarrow>
                                  if q = 0x22 then JSONObject interp room (pairs @ [(key, val)]) s5
                                  else
                                    Inl (raise_errmsg room
                                           (JSONDecodeError_msg
                                              ''Expecting property name enclosed in double quotes'')))))))"
| "JSONArray interp room vals s =
     (case scan_once interp room s of
        Inl e \<Rightarrow> Inl e
      | Inr (val, s1) \<Rightarrow>
          (case skip_ws s1 of
             [] \<Rightarrow> Inl (raise_errmsg room (JSONDecodeError_msg ''Expecting ',' delimiter''))
           | nextchar # s2 \<Rightarrow>
               if nextchar = ch CHR '']'' then Inr (PyList (vals @ [val]), s2)
               else if nextchar \<noteq> ch CHR '','' then
                 Inl (raise_errmsg room (JSONDecodeError_msg ''Expecting ',' delimiter''))
               else JSONArray interp room (vals @ [val]) (skip_ws s2)))"
  by pat_completeness auto
termination
proof -
  have shorter:
    "scan_once_JSONObject_JSONArray_dom (Inl (interp, room, s)) \<Longrightarrow>
       (\<forall>v r. scan_once interp room s = Inr (v, r) \<longrightarrow> length r < length s)"
    "scan_once_JSONObject_JSONArray_dom (Inr (Inl (interp', room', pairs, s'))) \<Longrightarrow>
       (\<forall>v r. JSONObject interp' room' pairs s' = Inr (v, r) \<longrightarrow> length r < length s')"
    "scan_once_JSONObject_JSONArray_dom (Inr (Inr (interp'', room'', vals, s''))) \<Longrightarrow>
       (\<forall>v r. JSONArray interp'' room'' vals s'' = Inr (v, r) \<longrightarrow> length r < length s'')"
    for interp room s interp' room' pairs s' interp'' room'' vals s''
  proof (induction interp room s and interp' room' pairs s' and interp'' room'' vals s''
      rule: scan_once_JSONObject_JSONArray.pinduct)
    case (1 interp room s)
    show ?case
      unfolding scan_once.psimps [OF 1(1)]
      using 1(2,3)
      apply (auto simp: ch_def split: list.splits if_splits sum.splits prod.splits
          dest: scanstring_length scan_atom_length skip_ws_Cons_length)
             apply (frule skip_ws_Cons_length, fastforce)+
      done
  next
    case (2 interp room pairs s)
    show ?case
    proof (intro allI impI)
      fix v r
      assume "JSONObject interp room pairs s = Inr (v, r)"
      note eq = this [unfolded JSONObject.psimps [OF 2(1)]]
      from eq obtain key s1 where k: "scanstring [] s = Inr (key, s1)"
        by (auto split: sum.splits)
      from eq k obtain s2 where c: "skip_ws s1 = ch CHR '':'' # s2"
        by (auto split: list.splits if_splits)
      from eq k c obtain val s3 where sv: "scan_once interp room (skip_ws s2) = Inr (val, s3)"
        by (auto split: sum.splits)
      from eq k c sv obtain nextchar s4 where n: "skip_ws s3 = nextchar # s4"
        by (auto split: list.splits)
      have "length s3 < length (skip_ws s2)"
        using 2(2) k c sv by auto
      with skip_ws_length [of s2] skip_ws_Cons_length [OF c] scanstring_length [OF k]
        skip_ws_Cons_length [OF n]
      have l4: "length s4 < length s" by simp
      show "length r < length s"
      proof (cases "nextchar = ch CHR ''}''")
        case True
        with eq k c sv n have "r = s4" by simp
        with l4 show ?thesis by simp
      next
        case False
        with eq k c sv n obtain s5 where q: "skip_ws s4 = 34 # s5"
          and comma: "nextchar = ch CHR '',''"
          and again: "JSONObject interp room (pairs @ [(key, val)]) s5 = Inr (v, r)"
          by (auto split: list.splits if_splits)
        have "length r < length s5"
          using 2(3) k c sv n q comma False again by auto
        with skip_ws_Cons_length [OF q] l4 show ?thesis by simp
      qed
    qed
  next
    case (3 interp room vals s)
    show ?case
    proof (intro allI impI)
      fix v r
      assume "JSONArray interp room vals s = Inr (v, r)"
      note eq = this [unfolded JSONArray.psimps [OF 3(1)]]
      from eq obtain val s1 where sv: "scan_once interp room s = Inr (val, s1)"
        by (auto split: sum.splits)
      from eq sv obtain nextchar s2 where n: "skip_ws s1 = nextchar # s2"
        by (auto split: list.splits)
      have "length s1 < length s"
        using 3(2) sv by simp
      with skip_ws_Cons_length [OF n] have l2: "length s2 < length s" by simp
      show "length r < length s"
      proof (cases "nextchar = ch CHR '']''")
        case True
        with eq sv n have "r = s2" by simp
        with l2 show ?thesis by simp
      next
        case False
        with eq sv n have comma: "nextchar = ch CHR '',''"
          and again: "JSONArray interp room (vals @ [val]) (skip_ws s2) = Inr (v, r)"
          by (auto split: if_splits)
        have "length r < length (skip_ws s2)"
          using 3(3) sv n comma False again by auto
        with skip_ws_length [of s2] l2 show ?thesis by simp
      qed
    qed
  qed
  show ?thesis
  proof (relation "measure (\<lambda>x. case x of
      Inl (interp, room, s) \<Rightarrow> 2 * length s
    | Inr (Inl (interp, room, pairs, s)) \<Rightarrow> 2 * length s + 1
    | Inr (Inr (interp, room, vals, s)) \<Rightarrow> 2 * length s + 1)", goal_cases)
    case 1
    show ?case by simp
  next
    case (2 interp room s nextchar s1 c s2)
    then show ?case using skip_ws_Cons_length [of s1 c s2] by simp
  next
    case (3 interp room s nextchar s1 c s2)
    then show ?case using skip_ws_length [of s1] by simp
  next
    case (4 interp room pairs s b key s1 c s2)
    then show ?case
      using scanstring_length [of "[]" s key s1] skip_ws_Cons_length [of s1 c s2]
        skip_ws_length [of s2] by simp
  next
    case (5 interp room pairs s b key s1 c s2 b' val s3 nextchar s4 q s5)
    then show ?case
      using scanstring_length [of "[]" s key s1] skip_ws_Cons_length [of s1 c s2]
        skip_ws_length [of s2] shorter(1) [of interp room "skip_ws s2"]
        skip_ws_Cons_length [of s3 nextchar s4] skip_ws_Cons_length [of s4 q s5]
      by auto
  next
    case (6 interp room vals s)
    show ?case by simp
  next
    case (7 interp room vals s b val s1 nextchar s2)
    then show ?case
      using shorter(1) [of interp room s] skip_ws_Cons_length [of s1 nextchar s2]
        skip_ws_length [of s2]
      by auto
  qed
qed

declare scan_once.simps [simp del] JSONObject.simps [simp del] JSONArray.simps [simp del]

text \<open>
  \<open>json.loads(s)\<close>: a leading byte order mark is refused; white space around the one
  value is skipped; anything after it is \<open>Extra data\<close>.
\<close>

definition json_loads :: "interpreter \<Rightarrow> py_str \<Rightarrow> py_exception + py_value" where
  "json_loads interp s =
     (if startswith s [0xFEFF] then
        Inl (JSONDecodeError_msg ''Unexpected UTF-8 BOM (decode using utf-8-sig)'')
      else
        case scan_once interp (max_nesting interp) (skip_ws s) of
          Inl e \<Rightarrow> Inl e
        | Inr (obj, r) \<Rightarrow>
            if skip_ws r \<noteq> [] then Inl (JSONDecodeError_msg ''Extra data'')
            else Inr obj)"

section \<open>The pattern search of the fallback\<close>

text \<open>
  \<open>re.search\<close> with the pattern of an opening brace, any characters (line breaks
  too, under \<open>re.DOTALL\<close>) and a closing brace. \<open>dot_star_rbrace\<close> is the greedy part:
  it takes as many characters as it can and gives characters back until a closing
  brace ends the match. \<open>re_match\<close> tries the pattern at the head of the text,
  \<open>re_search\<close> at each position from the left; the result is the matched text
  (\<open>group()\<close>), or \<open>None\<close>.
\<close>

fun dot_star_rbrace :: "py_str \<Rightarrow> py_str option" where
  "dot_star_rbrace [] = None"
| "dot_star_rbrace (c # s) =
     (case dot_star_rbrace s of
        Some m \<Rightarrow> Some (c # m)
      | None \<Rightarrow> if c = ch CHR ''}'' then Some [c] else None)"

definition re_match :: "py_str \<Rightarrow> py_str option" where
  "re_match s =
     (case s of
        [] \<Rightarrow> None
      | c # r \<Rightarrow>
          if c = ch CHR ''{'' then
            (case dot_star_rbrace r of Some m \<Rightarrow> Some (c # m) | None \<Rightarrow> None)
          else None)"

fun re_search :: "py_str \<Rightarrow> py_str option" where
  "re_search [] = None"
| "re_search (c # s) =
     (case re_match (c # s) of
        Some m \<Rightarrow> Some m
      | None \<Rightarrow> re_search s)"

text \<open>
  The specification's words for the same thing. A text contains a brace-delimited
  substring when a closing brace follows its first opening brace.
\<close>

definition contains_brace_delimited :: "py_str \<Rightarrow> bool" where
  "contains_brace_delimited s =
     (ch CHR ''}'' \<in> set (dropWhile (\<lambda>c. c \<noteq> ch CHR ''{'') s))"

text \<open>
  The specification's first brace-delimited substring, from the first opening brace
  to its matching closing brace: \<open>to_matching_brace d\<close> copies the text up to the
  closing brace that meets \<open>d\<close> braces still open.
\<close>

fun to_matching_brace :: "nat \<Rightarrow> py_str \<Rightarrow> py_str option" where
  "to_matching_brace d [] = None"
| "to_matching_brace d (c # s) =
     (if c = ch CHR ''}'' then
        (case d of
           0 \<Rightarrow> Some [c]
         | Suc d' \<Rightarrow> map_option (Cons c) (to_matching_brace d' s))
      else if c = ch CHR ''{'' then map_option (Cons c) (to_matching_brace (Suc d) s)
      else map_option (Cons c) (to_matching_brace d s))"

definition first_brace_delimited_spec :: "py_str \<Rightarrow> py_str option" where
  "first_brace_delimited_spec s =
     (case dropWhile (\<lambda>c. c \<noteq> ch CHR ''{'') s of
        [] \<Rightarrow> None
      | c # r \<Rightarrow> map_option (Cons c) (to_matching_brace 0 r))"

section \<open>The world around the module\<close>

text \<open>
  What the module reaches outside itself is a parameter of the model: the process
  environment, the limits of the interpreter, the base64 and image decoders, and the
  remote model, whose
  \<open>generate_content\<close> takes the model's name, the contents and the requested
  \<open>response_mime_type\<close> and either raises or returns a response. Reading the
  \<open>text\<close> of a response may raise as well.
\<close>

datatype 'img part = Text py_str | Image 'img

datatype response = Response (text_of: "py_exception + py_str")

datatype GenerativeModel = GenerativeModel (model_name: py_str)

record 'img world =
  environ :: "py_str \<Rightarrow> py_str option"
  python :: interpreter
  b64decode :: "py_str \<Rightarrow> py_exception + bytes"
  Image_open :: "bytes \<Rightarrow> py_exception + 'img"
  generate_content ::
    "py_str \<Rightarrow> 'img part list \<Rightarrow> py_str option \<Rightarrow> py_exception + response"

text \<open>
  The effects of a call, in order: configuring the client library, a call of the
  remote model, and what is printed (a line, or a line that ends in an exception).
\<close>

datatype 'img event =
    Configure py_str
  | GenerateContent py_str "'img part list" "py_str option"
  | Print py_str
  | PrintExc py_str py_exception

fun is_GenerateContent :: "'img event \<Rightarrow> bool" where
  "is_GenerateContent (GenerateContent m c g) = True"
| "is_GenerateContent e = False"

section \<open>The module\<close>

text \<open>
  Every operation returns its result, an exception raised to the caller (\<open>Inl\<close>) or
  a value (\<open>Inr\<close>), together with the effects it had. The parameters \<open>client\<close> and
  \<open>detail\<close> of the source are never read and are left out.
\<close>

definition configuration_error :: py_exception where
  "configuration_error =
     PyExc ValueError
       (py_str ''GOOGLE_API_KEY environment variable is not set. Please add it to your .env file.'')"

definition get_gemini_model ::
  "'img world \<Rightarrow> (py_exception + GenerativeModel) \<times> 'img event list" where
  "get_gemini_model w =
     (case environ w (py_str ''GOOGLE_API_KEY'') of
        None \<Rightarrow> (Inl configuration_error, [])
      | Some api_key \<Rightarrow>
          if api_key = [] then (Inl configuration_error, [])
          else
            (Inr (GenerativeModel
                    (case environ w (py_str ''GEMINI_MODEL_NAME'') of
                       Some name \<Rightarrow> name
                     | None \<Rightarrow> py_str ''gemini-1.5-flash'')),
             [Configure api_key]))"

definition base64_to_pil :: "'img world \<Rightarrow> py_str \<Rightarrow> py_exception + 'img" where
  "base64_to_pil w base64_str =
     (case b64decode w base64_str of
        Inl e \<Rightarrow> Inl e
      | Inr image_data \<Rightarrow> Image_open w image_data)"

text \<open>The comprehension \<open>[base64_to_pil(img) for img in imgs]\<close>: the first failure ends it.\<close>

fun base64_to_pil_each :: "'img world \<Rightarrow> py_str list \<Rightarrow> py_exception + 'img list" where
  "base64_to_pil_each w [] = Inr []"
| "base64_to_pil_each w (img # imgs) =
     (case base64_to_pil w img of
        Inl e \<Rightarrow> Inl e
      | Inr i \<Rightarrow>
          (case base64_to_pil_each w imgs of
             Inl e \<Rightarrow> Inl e
           | Inr is \<Rightarrow> Inr (i # is)))"

record MockMessage =
  content :: py_str

record MockChoice =
  message :: MockMessage

record MockUsage =
  total_tokens :: int

record MockResponse =
  choices :: "MockChoice list"
  usage :: MockUsage

definition MockResponse_init :: "py_str \<Rightarrow> int \<Rightarrow> MockResponse" where
  "MockResponse_init content' tokens =
     \<lparr>choices = [\<lparr>message = \<lparr>content = content'\<rparr>\<rparr>], usage = \<lparr>total_tokens = tokens\<rparr>\<rparr>"

definition analyze_images_with_gpt4_vision ::
  "'img world \<Rightarrow> py_str list \<Rightarrow> py_str list \<Rightarrow> py_str \<Rightarrow> py_str \<Rightarrow>
     (py_exception + MockResponse) \<times> 'img event list" where
  "analyze_images_with_gpt4_vision w character_profiles pages prompt instructions =
     (case get_gemini_model w of
        (Inl e, tr) \<Rightarrow> (Inl e, tr)
      | (Inr model, tr) \<Rightarrow>
          (case base64_to_pil_each w character_profiles of
             Inl e \<Rightarrow> (Inl e, tr)
           | Inr profile_images \<Rightarrow>
               (case base64_to_pil_each w pages of
                  Inl e \<Rightarrow> (Inl e, tr)
                | Inr page_images \<Rightarrow>
                    (let contents =
                       [Text (py_str ''System Instructions: '' @ instructions @ [0x0A, 0x0A]),
                        Text (py_str ''Here are some character profile pages, for your reference:'')]
                       @ map Image profile_images
                       @ [Text ([0x0A] @ py_str ''Prompt: '' @ prompt @ [0x0A])]
                       @ map Image page_images;
                       tr' = tr @ [GenerateContent (model_name model) contents None]
                     in case generate_content w (model_name model) contents None of
                          Inl e \<Rightarrow> (Inl e, tr')
                        | Inr response \<Rightarrow>
                            (case text_of response of
                               Inl e \<Rightarrow> (Inl e, tr')
                             | Inr response_text \<Rightarrow>
                                 (Inr (MockResponse_init response_text 0), tr'))))))"

text \<open>The returned dictionary of the two JSON-mode operations.\<close>

definition detection_result :: "py_value \<Rightarrow> py_value" where
  "detection_result parsed =
     PyDict [(py_str ''total_tokens'', PyInt 0), (py_str ''parsed_response'', parsed)]"

definition detect_important_pages ::
  "'img world \<Rightarrow> py_str list \<Rightarrow> py_str list \<Rightarrow> py_str list \<Rightarrow> py_str \<Rightarrow> py_str \<Rightarrow>
     (py_exception + py_value) \<times> 'img event list" where
  "detect_important_pages w profile_reference chapter_reference pages prompt instructions =
     (case get_gemini_model w of
        (Inl e, tr) \<Rightarrow> (Inl e, tr)
      | (Inr model, tr) \<Rightarrow>
          (case base64_to_pil_each w profile_reference of
             Inl e \<Rightarrow> (Inl e, tr)
           | Inr profile_images \<Rightarrow>
               (case base64_to_pil_each w chapter_reference of
                  Inl e \<Rightarrow> (Inl e, tr)
                | Inr chapter_images \<Rightarrow>
                    (case base64_to_pil_each w pages of
                       Inl e \<Rightarrow> (Inl e, tr)
                     | Inr page_images \<Rightarrow>
                         (let contents =
                            [Text (py_str ''System Instructions: '' @ instructions @ [0x0A, 0x0A]),
                             Text (py_str ''Here are some character profile pages, for your reference:'')]
                            @ map Image profile_images
                            @ [Text ([0x0A] @ py_str ''Here are some chapter start pages, for your reference:'')]
                            @ map Image chapter_images
                            @ [Text ([0x0A] @ py_str ''Prompt: '' @ prompt @ [0x0A])]
                            @ map Image page_images;
                            mime = Some (py_str ''application/json'');
                            tr' = tr @ [GenerateContent (model_name model) contents mime]
                          in case generate_content w (model_name model) contents mime of
                               Inl e \<Rightarrow> (Inl e, tr')
                             | Inr response \<Rightarrow>
                                 (case text_of response of
                                    Inl e \<Rightarrow> (Inl e, tr')
                                  | Inr response_text \<Rightarrow>
                                      (case
                                         (case json_loads (python w) response_text of
                                            Inr parsed_response \<Rightarrow> (Inr parsed_response, tr')
                                          | Inl e \<Rightarrow>
                                              if isinstance_JSONDecodeError e then
                                                (case re_search response_text of
                                                   Some json_match \<Rightarrow> (json_loads (python w) json_match, tr')
                                                 | None \<Rightarrow>
                                                     (Inl e,
                                                      tr' @ [Print (py_str ''Failed to parse JSON from Gemini response.'')]))
                                              else (Inl e, tr'))
                                       of
                                         (Inl e, tr'') \<Rightarrow> (Inl e, tr'')
                                       | (Inr parsed_response, tr'') \<Rightarrow>
                                           (case py_get parsed_response (py_str ''important_pages'') (PyList []) of
                                              Inl e \<Rightarrow> (Inl e, tr'')
                                            | Inr found \<Rightarrow> (Inr (detection_result found), tr'')))))))))"

definition get_important_panels ::
  "'img world \<Rightarrow> py_str list \<Rightarrow> py_str list \<Rightarrow> py_str \<Rightarrow> py_str \<Rightarrow>
     (py_exception + py_value) \<times> 'img event list" where
  "get_important_panels w profile_reference panels prompt instructions =
     (case get_gemini_model w of
        (Inl e, tr) \<Rightarrow> (Inl e, tr)
      | (Inr model, tr) \<Rightarrow>
          (case base64_to_pil_each w profile_reference of
             Inl e \<Rightarrow> (Inl e, tr)
           | Inr profile_images \<Rightarrow>
               (case base64_to_pil_each w panels of
                  Inl e \<Rightarrow> (Inl e, tr)
                | Inr panel_images \<Rightarrow>
                    (let contents =
                       [Text (py_str ''System Instructions: '' @ instructions @ [0x0A, 0x0A]),
                        Text (py_str ''Here are some character profile pages, for your reference:'')]
                       @ map Image profile_images
                       @ [Text ([0x0A] @ py_str ''Prompt: '' @ prompt @ [0x0A])]
                       @ map Image panel_images;
                       mime = Some (py_str ''application/json'');
                       tr' = tr @ [GenerateContent (model_name model) contents mime]
                     in case
                          (case generate_content w (model_name model) contents mime of
                             Inl e \<Rightarrow> Inl e
                           | Inr response \<Rightarrow> text_of response)
                        of
                          Inl e \<Rightarrow>
                            if isinstance_Exception e then
                              (Inr (detection_result (PyList [])),
                               tr' @ [PrintExc (py_str ''Gemini Error during panel identification: '') e])
                            else (Inl e, tr')
                        | Inr response_text \<Rightarrow>
                            (case
                               (case json_loads (python w) response_text of
                                  Inr parsed_response \<Rightarrow> Inr parsed_response
                                | Inl e \<Rightarrow>
                                    if isinstance_JSONDecodeError e then
                                      (case re_search response_text of
                                         Some json_match \<Rightarrow> json_loads (python w) json_match
                                       | None \<Rightarrow> Inr (PyDict [(py_str ''important_panels'', PyList [])]))
                                    else Inl e)
                             of
                               Inl e \<Rightarrow> (Inl e, tr')
                             | Inr parsed_response \<Rightarrow>
                                 (case py_get parsed_response (py_str ''important_panels'') (PyList []) of
                                    Inl e \<Rightarrow> (Inl e, tr')
                                  | Inr found \<Rightarrow> (Inr (detection_result found), tr')))))))"

text \<open>
  Worlds to run the operations in: the interpreter has its default limit on the digits
  of an integer and room for 993 nested containers, as under the default recursion
  limit near the bottom of the call stack; images decode to their bytes.
\<close>

definition default_interpreter :: interpreter where
  "default_interpreter = \<lparr>int_max_str_digits = 4300, recursion_headroom = 990\<rparr>"

definition world_with :: "py_str option \<Rightarrow> (py_exception + response) \<Rightarrow> bytes world" where
  "world_with api_key outcome =
     \<lparr>environ = (\<lambda>k. if k = py_str ''GOOGLE_API_KEY'' then api_key else None),
      python = default_interpreter,
      b64decode = (\<lambda>s. Inr s),
      Image_open = (\<lambda>b. Inr b),
      generate_content = (\<lambda>m c g. outcome)\<rparr>"

definition world_returning :: "py_str \<Rightarrow> bytes world" where
  "world_returning response_text =
     world_with (Some (py_str ''key'')) (Inr (Response (Inr response_text)))"

definition world_raising :: "py_exception \<Rightarrow> bytes world" where
  "world_raising e = world_with (Some (py_str ''key'')) (Inl e)"

section \<open>Facts about the decoder and the search\<close>

lemma isinstance_JSONDecodeError_msg [simp]: "isinstance_JSONDecodeError (JSONDecodeError_msg m)"
  by (simp add: JSONDecodeError_msg_def isinstance_JSONDecodeError_def)

text \<open>
  What the search finds: nothing exactly when no closing brace follows the first
  opening brace; otherwise the text from the first opening brace to the last closing
  brace.
\<close>

lemma dot_star_rbrace_None: "dot_star_rbrace s = None \<longleftrightarrow> ch CHR ''}'' \<notin> set s"
  by (induction s) (auto split: option.splits)

lemma dot_star_rbrace_last:
  "ch CHR ''}'' \<notin> set post \<Longrightarrow>
     dot_star_rbrace (mid @ ch CHR ''}'' # post) = Some (mid @ [ch CHR ''}''])"
proof (induction mid)
  case Nil
  then show ?case using dot_star_rbrace_None [of post] by simp
next
  case (Cons c mid)
  then show ?case by simp
qed

lemma re_search_first_to_last:
  assumes "ch CHR ''{'' \<notin> set pre" and "ch CHR ''}'' \<notin> set post"
  shows "re_search (pre @ ch CHR ''{'' # mid @ ch CHR ''}'' # post) =
           Some (ch CHR ''{'' # mid @ [ch CHR ''}''])"
  using assms
proof (induction pre)
  case Nil
  then show ?case by (simp add: re_match_def dot_star_rbrace_last)
next
  case (Cons c pre)
  then show ?case by (simp add: re_match_def)
qed

lemma dot_star_rbrace_no_rbrace: "ch CHR ''}'' \<notin> set s \<Longrightarrow> dot_star_rbrace s = None"
  by (simp add: dot_star_rbrace_None)

lemma re_search_no_rbrace: "ch CHR ''}'' \<notin> set s \<Longrightarrow> re_search s = None"
  by (induction s) (auto simp: re_match_def dot_star_rbrace_no_rbrace split: option.splits)

lemma re_search_None_iff: "re_search s = None \<longleftrightarrow> \<not> contains_brace_delimited s"
proof (induction s)
  case Nil
  then show ?case by (simp add: contains_brace_delimited_def)
next
  case (Cons c s)
  show ?case
  proof (cases "c = ch CHR ''{''")
    case True
    then show ?thesis
      using dot_star_rbrace_None [of s] re_search_no_rbrace [of s]
      by (auto simp: re_match_def contains_brace_delimited_def ch_def split: option.splits)
  next
    case False
    then show ?thesis
      using Cons by (simp add: re_match_def contains_brace_delimited_def)
  qed
qed

lemma contains_brace_delimited_iff:
  "contains_brace_delimited s \<longleftrightarrow>
     (\<exists>pre mid post. s = pre @ ch CHR ''{'' # mid @ ch CHR ''}'' # post)"
proof
  assume "contains_brace_delimited s"
  then have r: "ch CHR ''}'' \<in> set (dropWhile (\<lambda>c. c \<noteq> ch CHR ''{'') s)"
    by (simp add: contains_brace_delimited_def)
  then have "dropWhile (\<lambda>c. c \<noteq> ch CHR ''{'') s \<noteq> []"
    by (metis empty_iff list.set(1))
  then obtain rest where d: "dropWhile (\<lambda>c. c \<noteq> ch CHR ''{'') s = ch CHR ''{'' # rest"
    using hd_dropWhile [of "\<lambda>c. c \<noteq> ch CHR ''{''" s]
    by (cases "dropWhile (\<lambda>c. c \<noteq> ch CHR ''{'') s") auto
  with r have "ch CHR ''}'' \<in> set rest" by (simp add: ch_def)
  then obtain mid post where "rest = mid @ ch CHR ''}'' # post"
    by (auto simp: in_set_conv_decomp)
  with d have "s = takeWhile (\<lambda>c. c \<noteq> ch CHR ''{'') s @ ch CHR ''{'' # mid @ ch CHR ''}'' # post"
    using takeWhile_dropWhile_id [of "\<lambda>c. c \<noteq> ch CHR ''{''" s] by simp
  then show "\<exists>pre mid post. s = pre @ ch CHR ''{'' # mid @ ch CHR ''}'' # post"
    by blast
next
  assume "\<exists>pre mid post. s = pre @ ch CHR ''{'' # mid @ ch CHR ''}'' # post"
  then obtain pre mid post where s: "s = pre @ ch CHR ''{'' # mid @ ch CHR ''}'' # post"
    by blast
  have "ch CHR ''}'' \<in> set (dropWhile (\<lambda>c. c \<noteq> ch CHR ''{'') (pre @ ch CHR ''{'' # mid @ ch CHR ''}'' # post))"
  proof (induction pre)
    case Nil
    then show ?case by simp
  next
    case (Cons c pre)
    then show ?case by simp
  qed
  with s show "contains_brace_delimited s"
    by (simp add: contains_brace_delimited_def)
qed

text \<open>A text that starts with an opening brace parses to an object, if it parses.\<close>

lemma JSONObject_dict:
  "JSONObject interp room pairs s = Inr (v, r) \<longrightarrow> (\<exists>d. v = PyDict d)"
proof (induction interp room pairs s rule: scan_once_JSONObject_JSONArray.induct(2)
    [where P = "\<lambda>interp room s. True" and R = "\<lambda>interp room vals s. True"])
  case (1 interp room s)
  show ?case by simp
next
  case (2 interp room pairs s)
  show ?case
    apply (subst JSONObject.simps)
    using 2(2)
    apply (auto split: list.splits sum.splits if_splits prod.splits)
    done
next
  case (3 interp room vals s)
  show ?case by simp
qed

lemma json_loads_object:
  assumes "json_loads interp (ch CHR ''{'' # r) = Inr v"
  shows "\<exists>d. v = PyDict d"
proof -
  have ws: "skip_ws (ch CHR ''{'' # r) = ch CHR ''{'' # r"
    by (simp add: skip_ws_def is_ws_def ch_def)
  from assms obtain rest
    where "scan_once interp (max_nesting interp) (ch CHR ''{'' # r) = Inr (v, rest)"
    by (auto simp: json_loads_def ws split: if_splits sum.splits)
  then show ?thesis
    using JSONObject_dict
    by (auto simp: scan_once.simps ch_def split: list.splits if_splits)
qed

section \<open>The operations on a returned text\<close>

lemmas json_eval = json_loads_def py_str_def ch_def skip_ws_def is_ws_def startswith_def
  JSONDecodeError_msg_def scan_atom_def match_number_def match_integer_def match_frac_def
  match_exp_def is_digit_def parse_int_def dict_def scan_escape_def BACKSLASH_def
  decode_uXXXX_def hex_value_def Let_def max_nesting_def raise_errmsg_def
  scan_once.simps JSONObject.simps JSONArray.simps

lemmas world_eval = world_returning_def world_raising_def world_with_def
  default_interpreter_def

lemma get_gemini_model_set:
  assumes "environ w (py_str ''GOOGLE_API_KEY'') = Some api_key" and "api_key \<noteq> []"
  shows "\<exists>name. get_gemini_model w = (Inr (GenerativeModel name), [Configure api_key])"
  using assms by (simp add: get_gemini_model_def)

lemma get_gemini_model_unset:
  assumes "environ w (py_str ''GOOGLE_API_KEY'') = None"
  shows "get_gemini_model w = (Inl configuration_error, [])"
  using assms by (simp add: get_gemini_model_def)

lemma detect_important_pages_text:
  assumes "environ w (py_str ''GOOGLE_API_KEY'') = Some api_key" and "api_key \<noteq> []"
    and "base64_to_pil_each w profiles = Inr profile_images"
    and "base64_to_pil_each w chapters = Inr chapter_images"
    and "base64_to_pil_each w pages = Inr page_images"
    and "\<And>m c g. generate_content w m c g = Inr (Response (Inr response_text))"
  shows "fst (detect_important_pages w profiles chapters pages prompt instructions) =
    (case json_loads (python w) response_text of
       Inr parsed \<Rightarrow>
         (case py_get parsed (py_str ''important_pages'') (PyList []) of
            Inl e \<Rightarrow> Inl e
          | Inr found \<Rightarrow> Inr (detection_result found))
     | Inl e \<Rightarrow>
         if isinstance_JSONDecodeError e then
           (case re_search response_text of
              None \<Rightarrow> Inl e
            | Some json_match \<Rightarrow>
                (case json_loads (python w) json_match of
                   Inl e' \<Rightarrow> Inl e'
                 | Inr parsed \<Rightarrow>
                     (case py_get parsed (py_str ''important_pages'') (PyList []) of
                        Inl e \<Rightarrow> Inl e
                      | Inr found \<Rightarrow> Inr (detection_result found))))
         else Inl e)"
proof -
  from get_gemini_model_set [OF assms(1,2)] obtain name
    where "get_gemini_model w = (Inr (GenerativeModel name), [Configure api_key])" ..
  then show ?thesis
    using assms(3-6)
    by (auto simp: detect_important_pages_def Let_def split: sum.splits option.splits)
qed

lemma get_important_panels_text:
  assumes "environ w (py_str ''GOOGLE_API_KEY'') = Some api_key" and "api_key \<noteq> []"
    and "base64_to_pil_each w profiles = Inr profile_images"
    and "base64_to_pil_each w panels = Inr panel_images"
    and "\<And>m c g. generate_content w m c g = Inr (Response (Inr response_text))"
  shows "fst (get_important_panels w profiles panels prompt instructions) =
    (case json_loads (python w) response_text of
       Inr parsed \<Rightarrow>
         (case py_get parsed (py_str ''important_panels'') (PyList []) of
            Inl e \<Rightarrow> Inl e
          | Inr found \<Rightarrow> Inr (detection_result found))
     | Inl e \<Rightarrow>
         if isinstance_JSONDecodeError e then
           (case re_search response_text of
              None \<Rightarrow> Inr (detection_result (PyList []))
            | Some json_match \<Rightarrow>
                (case json_loads (python w) json_match of
                   Inl e' \<Rightarrow> Inl e'
                 | Inr parsed \<Rightarrow>
                     (case py_get parsed (py_str ''important_panels'') (PyList []) of
                        Inl e \<Rightarrow> Inl e
                      | Inr found \<Rightarrow> Inr (detection_result found))))
         else Inl e)"
proof -
  from get_gemini_model_set [OF assms(1,2)] obtain name
    where "get_gemini_model w = (Inr (GenerativeModel name), [Configure api_key])" ..
  then show ?thesis
    using assms(3-5)
    by (auto simp: get_important_panels_def Let_def py_get_def
        split: sum.splits option.splits)
qed

text \<open>The decoder and the search on the texts used below.\<close>

lemma json_loads_pages: \<open>json_loads interp (py_str ''{"important_pages": ["p1","p2"]}'') =
  Inr (PyDict [(py_str ''important_pages'', PyList [PyStr (py_str ''p1''), PyStr (py_str ''p2'')])])\<close>
  by (simp add: json_eval)

lemma json_loads_empty_object: \<open>json_loads interp (py_str ''{}'') = Inr (PyDict [])\<close>
  by (simp add: json_eval)

lemma json_loads_noise: \<open>json_loads interp (py_str ''noise {"important_panels": ["a"]} trailing'') =
  Inl (JSONDecodeError_msg ''Expecting value'')\<close>
  by (simp add: json_eval)

lemma re_search_noise: \<open>re_search (py_str ''noise {"important_panels": ["a"]} trailing'') =
  Some (py_str ''{"important_panels": ["a"]}'')\<close>
  by (simp add: py_str_def ch_def re_match_def)

lemma json_loads_panels: \<open>json_loads interp (py_str ''{"important_panels": ["a"]}'') =
  Inr (PyDict [(py_str ''important_panels'', PyList [PyStr (py_str ''a'')])])\<close>
  by (simp add: json_eval)

lemma json_loads_list: \<open>json_loads interp (py_str ''["p1"]'') = Inr (PyList [PyStr (py_str ''p1'')])\<close>
  by (simp add: json_eval)

lemma json_loads_word: \<open>json_loads interp (py_str ''noise'') = Inl (JSONDecodeError_msg ''Expecting value'')\<close>
  by (simp add: json_eval)

text \<open>A literal of digits beyond the limit of the interpreter, followed by a letter.\<close>

lemma json_loads_long_integer:
  assumes "640 < Suc n" and "0 < int_max_str_digits interp"
    and "int_max_str_digits interp < Suc n"
  shows "json_loads interp (replicate (Suc n) (ch CHR ''1'') @ py_str '' x'') =
           Inl (int_digits_error (int_max_str_digits interp) (Suc n))"
proof -
  have digits: "takeWhile is_digit (replicate n 49 @ [32, 120]) = replicate n 49"
    by (induction n) (simp_all add: is_digit_def ch_def)
  have rest: "dropWhile is_digit (replicate n 49 @ [32, 120]) = [32, 120]"
    by (induction n) (simp_all add: is_digit_def ch_def)
  have number: "match_number (49 # replicate n 49 @ [32, 120]) =
      Some ((49 # replicate n 49, [], []), [32, 120])"
    by (simp add: match_number_def match_integer_def match_frac_def match_exp_def is_digit_def
        ch_def digits rest)
  have convert: "parse_int interp (49 # replicate n 49) =
      Inl (int_digits_error (int_max_str_digits interp) (Suc n))"
    using assms by (simp add: parse_int_def Let_def ch_def)
  have atom: "scan_atom interp (49 # replicate n 49 @ [32, 120]) =
      Inl (int_digits_error (int_max_str_digits interp) (Suc n))"
    by (simp add: scan_atom_def startswith_def py_str_def number convert)
  show ?thesis
    by (simp add: json_loads_def startswith_def skip_ws_def is_ws_def scan_once.simps ch_def
        py_str_def atom)
qed

section \<open>The claims\<close>

text \<open>
  In the theorems below the credential is set, every image decodes, and the remote
  model answers each call in the same way: it raises a given exception, or it returns
  a response with a given text. The results are the first components of what the
  operations return; the second components are their effects.
\<close>

text \<open>
  C1, as amended. When the remote model raises an exception \<open>e\<close> on invocation,
  \<open>get_important_panels\<close> catches it and returns the empty result
  \<open>{"total_tokens": 0, "parsed_response": []}\<close> if \<open>e\<close> is an instance of
  \<open>Exception\<close>, and raises \<open>e\<close> unchanged otherwise;
  \<open>analyze_images_with_gpt4_vision\<close> and \<open>detect_important_pages\<close> raise \<open>e\<close>
  unchanged in every case.
\<close>

theorem remote_exception_policy:
  assumes "environ w (py_str ''GOOGLE_API_KEY'') = Some api_key" and "api_key \<noteq> []"
    and "base64_to_pil_each w profiles = Inr profile_images"
    and "base64_to_pil_each w chapters = Inr chapter_images"
    and "base64_to_pil_each w pages = Inr page_images"
    and "\<And>m c g. generate_content w m c g = Inl e"
  shows "fst (get_important_panels w profiles pages prompt instructions) =
           (if isinstance_Exception e
            then Inr (PyDict [(py_str ''total_tokens'', PyInt 0),
                              (py_str ''parsed_response'', PyList [])])
            else Inl e)
         \<and> fst (analyze_images_with_gpt4_vision w profiles pages prompt instructions) = Inl e
         \<and> fst (detect_important_pages w profiles chapters pages prompt instructions) = Inl e"
proof -
  from get_gemini_model_set [OF assms(1,2)] obtain name
    where "get_gemini_model w = (Inr (GenerativeModel name), [Configure api_key])" ..
  then show ?thesis
    using assms(3-6)
    by (simp add: get_important_panels_def analyze_images_with_gpt4_vision_def
        detect_important_pages_def detection_result_def Let_def)
qed

text \<open>
  The theorem at a model that raises a \<open>ValueError\<close>.
\<close>

theorem remote_exception_policy_witness:
  "fst (get_important_panels (world_raising (PyExc ValueError (py_str ''quota''))) [] [] [] []) =
     Inr (PyDict [(py_str ''total_tokens'', PyInt 0), (py_str ''parsed_response'', PyList [])])
   \<and> fst (analyze_images_with_gpt4_vision
          (world_raising (PyExc ValueError (py_str ''quota''))) [] [] [] []) =
       Inl (PyExc ValueError (py_str ''quota''))
   \<and> fst (detect_important_pages
          (world_raising (PyExc ValueError (py_str ''quota''))) [] [] [] [] []) =
       Inl (PyExc ValueError (py_str ''quota''))"
  using remote_exception_policy [of "world_raising (PyExc ValueError (py_str ''quota''))"
      "py_str ''key''" "[]" "[]" "[]" "[]" "[]" "[]" "PyExc ValueError (py_str ''quota'')" "[]" "[]"]
  by (simp add: world_eval py_str_def)

text \<open>
  C1 as written says that every exception of the remote call is caught by
  \<open>get_important_panels\<close>. The handler is \<open>except Exception\<close>: a
  \<open>KeyboardInterrupt\<close> raised during the call is not an instance of
  \<open>Exception\<close> and reaches the caller.
\<close>

theorem panels_keyboard_interrupt_counterexample:
  "fst (get_important_panels (world_raising (PyExc KeyboardInterrupt [])) [] [] [] []) =
     Inl (PyExc KeyboardInterrupt [])
   \<and> fst (get_important_panels (world_raising (PyExc KeyboardInterrupt [])) [] [] [] []) \<noteq>
     Inr (PyDict [(py_str ''total_tokens'', PyInt 0), (py_str ''parsed_response'', PyList [])])"
  by (simp add: get_important_panels_def get_gemini_model_def world_eval py_str_def Let_def)

text \<open>
  C2, as amended. When the strict parse of the text of the response raises a
  \<open>JSONDecodeError\<close> and the text contains no brace-delimited substring,
  \<open>detect_important_pages\<close> raises that error to the caller, and
  \<open>get_important_panels\<close> returns \<open>{"total_tokens": 0, "parsed_response": []}\<close>.
\<close>

theorem unrecoverable_text_policy:
  assumes "environ w (py_str ''GOOGLE_API_KEY'') = Some api_key" and "api_key \<noteq> []"
    and "base64_to_pil_each w profiles = Inr profile_images"
    and "base64_to_pil_each w chapters = Inr chapter_images"
    and "base64_to_pil_each w pages = Inr page_images"
    and "\<And>m c g. generate_content w m c g = Inr (Response (Inr response_text))"
    and "json_loads (python w) response_text = Inl e"
    and "isinstance_JSONDecodeError e"
    and "\<not> contains_brace_delimited response_text"
  shows "fst (detect_important_pages w profiles chapters pages prompt instructions) = Inl e
         \<and> fst (get_important_panels w profiles pages prompt instructions) =
             Inr (PyDict [(py_str ''total_tokens'', PyInt 0),
                          (py_str ''parsed_response'', PyList [])])"
proof -
  from assms(9) have none: "re_search response_text = None"
    by (simp add: re_search_None_iff)
  show ?thesis
    using detect_important_pages_text [OF assms(1-6), of prompt instructions]
      get_important_panels_text [OF assms(1-3) assms(5,6), of prompt instructions]
    by (simp add: assms(7,8) none detection_result_def)
qed

text \<open>
  The theorem at the text \<open>noise\<close>.
\<close>

theorem unrecoverable_text_policy_witness:
  "fst (detect_important_pages (world_returning (py_str ''noise'')) [] [] [] [] []) =
     Inl (JSONDecodeError_msg ''Expecting value'')
   \<and> fst (get_important_panels (world_returning (py_str ''noise'')) [] [] [] []) =
     Inr (PyDict [(py_str ''total_tokens'', PyInt 0), (py_str ''parsed_response'', PyList [])])"
proof -
  have "\<not> contains_brace_delimited (py_str ''noise'')"
    by (simp add: contains_brace_delimited_def py_str_def ch_def)
  with json_loads_word [of default_interpreter] show ?thesis
    using unrecoverable_text_policy [of "world_returning (py_str ''noise'')" "py_str ''key''"
        "[]" "[]" "[]" "[]" "[]" "[]" "py_str ''noise''" "JSONDecodeError_msg ''Expecting value''"
        "[]" "[]"]
    by (simp add: world_eval py_str_def)
qed

text \<open>
  C2 as written speaks of every text that is not valid JSON. A text of 5000 digits
  followed by a letter is not valid JSON and has no brace, but the parse does not
  end in a \<open>JSONDecodeError\<close>: the conversion of the digits exceeds the limit of the
  interpreter and raises \<open>ValueError\<close>, which \<open>except json.JSONDecodeError\<close> does
  not catch, and \<open>get_important_panels\<close> raises it instead of returning the empty
  result.
\<close>

theorem panels_long_integer_counterexample:
  "json_loads default_interpreter (replicate 5000 (ch CHR ''1'') @ py_str '' x'') =
     Inl (PyExc ValueError
            (py_str ''Exceeds the limit (4300 digits) for integer string conversion: value has 5000 digits; use sys.set_int_max_str_digits() to increase the limit''))
   \<and> \<not> contains_brace_delimited (replicate 5000 (ch CHR ''1'') @ py_str '' x'')
   \<and> fst (get_important_panels
          (world_returning (replicate 5000 (ch CHR ''1'') @ py_str '' x'')) [] [] [] []) =
       Inl (PyExc ValueError
              (py_str ''Exceeds the limit (4300 digits) for integer string conversion: value has 5000 digits; use sys.set_int_max_str_digits() to increase the limit''))
   \<and> fst (get_important_panels
          (world_returning (replicate 5000 (ch CHR ''1'') @ py_str '' x'')) [] [] [] []) \<noteq>
       Inr (PyDict [(py_str ''total_tokens'', PyInt 0), (py_str ''parsed_response'', PyList [])])"
proof -
  let ?T = "replicate 5000 (ch CHR ''1'') @ py_str '' x''"
  let ?e = "PyExc ValueError
    (py_str ''Exceeds the limit (4300 digits) for integer string conversion: value has 5000 digits; use sys.set_int_max_str_digits() to increase the limit'')"
  have parse: "json_loads default_interpreter ?T = Inl ?e"
    using json_loads_long_integer [of 4999 default_interpreter]
    by (simp add: default_interpreter_def int_digits_error_def str_nat.simps py_str_def ch_def)
  have no_brace: "\<not> contains_brace_delimited ?T"
    using set_dropWhileD [of "ch CHR ''}''" "\<lambda>c. c \<noteq> ch CHR ''{''" ?T]
    by (auto simp: contains_brace_delimited_def py_str_def ch_def)
  have "fst (get_important_panels (world_returning ?T) [] [] [] []) = Inl ?e"
    using get_important_panels_text [of "world_returning ?T" "py_str ''key''" "[]" "[]" "[]" "[]"
        ?T "[]" "[]"] parse
    by (simp add: world_eval isinstance_JSONDecodeError_def py_str_def [of "''GOOGLE_API_KEY''"]
        py_str_def [of "''key''"])
  with parse no_brace show ?thesis by simp
qed

text \<open>
  C3. The claim is that \<open>get_important_panels\<close> never lets an error of the JSON
  parse reach the caller. The second parse, of the text between the braces, stands
  inside the handler of the first and has no handler of its own: on the response
  \<open>{important_panels: []}\<close> the strict parse fails, the search finds the whole text,
  the second parse fails as the first did, and the operation raises the
  \<open>JSONDecodeError\<close>.
\<close>

theorem panels_reparse_failure_raises:
  \<open>json_loads default_interpreter (py_str ''{important_panels: []}'') =
     Inl (JSONDecodeError_msg ''Expecting property name enclosed in double quotes'')
   \<and> re_search (py_str ''{important_panels: []}'') = Some (py_str ''{important_panels: []}'')
   \<and> fst (get_important_panels (world_returning (py_str ''{important_panels: []}'')) [] [] [] []) =
     Inl (JSONDecodeError_msg ''Expecting property name enclosed in double quotes'')\<close>
  by (simp add: get_important_panels_def get_gemini_model_def world_eval json_eval
      re_match_def isinstance_JSONDecodeError_def)

text \<open>
  C4. For every text \<open>T\<close> that the model returns, the result of
  \<open>analyze_images_with_gpt4_vision\<close> has exactly one choice, the content of its
  message is \<open>T\<close>, and the total of tokens in its usage is 0.
\<close>

theorem legacy_shape:
  assumes "environ w (py_str ''GOOGLE_API_KEY'') = Some api_key" and "api_key \<noteq> []"
    and "base64_to_pil_each w profiles = Inr profile_images"
    and "base64_to_pil_each w pages = Inr page_images"
    and "\<And>m c g. generate_content w m c g = Inr (Response (Inr T))"
  shows "\<exists>r. fst (analyze_images_with_gpt4_vision w profiles pages prompt instructions) = Inr r
           \<and> length (choices r) = 1
           \<and> content (message (choices r ! 0)) = T
           \<and> total_tokens (usage r) = 0"
proof -
  from get_gemini_model_set [OF assms(1,2)] obtain name
    where "get_gemini_model w = (Inr (GenerativeModel name), [Configure api_key])" ..
  then show ?thesis
    using assms(3-5)
    by (simp add: analyze_images_with_gpt4_vision_def MockResponse_init_def Let_def)
qed

text \<open>
  The theorem at the text \<open>a story\<close>.
\<close>

theorem legacy_shape_witness:
  "\<exists>r. fst (analyze_images_with_gpt4_vision (world_returning (py_str ''a story'')) [] [] [] []) =
          Inr r
       \<and> length (choices r) = 1
       \<and> content (message (choices r ! 0)) = py_str ''a story''
       \<and> total_tokens (usage r) = 0"
  using legacy_shape [of "world_returning (py_str ''a story'')" "py_str ''key''"
      "[]" "[]" "[]" "[]" "py_str ''a story''" "[]" "[]"]
  by (simp add: world_eval py_str_def)

text \<open>
  C5. When the environment variable of the credential is not set, each of the three
  operations raises the configuration error, a \<open>ValueError\<close>, and has had no effect
  at all by then: the remote model is never called.
\<close>

theorem missing_credential:
  assumes "environ w (py_str ''GOOGLE_API_KEY'') = None"
  shows "analyze_images_with_gpt4_vision w profiles pages prompt instructions =
           (Inl configuration_error, [])
         \<and> detect_important_pages w profiles chapters pages prompt instructions =
           (Inl configuration_error, [])
         \<and> get_important_panels w profiles pages prompt instructions =
           (Inl configuration_error, [])
         \<and> exc_type configuration_error = ValueError"
  using get_gemini_model_unset [OF assms]
  by (simp add: analyze_images_with_gpt4_vision_def detect_important_pages_def
      get_important_panels_def configuration_error_def)

text \<open>
  The theorem in a world without the credential, whose model would answer.
\<close>

theorem missing_credential_witness:
  "analyze_images_with_gpt4_vision
       (world_with None (Inr (Response (Inr (py_str ''never read''))))) [] [] [] [] =
     (Inl configuration_error, [])
   \<and> detect_important_pages
       (world_with None (Inr (Response (Inr (py_str ''never read''))))) [] [] [] [] [] =
     (Inl configuration_error, [])
   \<and> get_important_panels
       (world_with None (Inr (Response (Inr (py_str ''never read''))))) [] [] [] [] =
     (Inl configuration_error, [])
   \<and> exc_type configuration_error = ValueError"
  using missing_credential [of "world_with None (Inr (Response (Inr (py_str ''never read''))))"
      "[]" "[]" "[]" "[]" "[]"]
  by (simp add: world_eval)

text \<open>
  C6. When the model returns \<open>{"important_pages": ["p1","p2"]}\<close>,
  \<open>detect_important_pages\<close> returns the dictionary with the two keys
  \<open>total_tokens\<close>, bound to 0, and \<open>parsed_response\<close>, bound to the list of
  \<open>p1\<close> and \<open>p2\<close>, and no other key.
\<close>

theorem pages_round_trip:
  assumes "environ w (py_str ''GOOGLE_API_KEY'') = Some api_key" and "api_key \<noteq> []"
    and "base64_to_pil_each w profiles = Inr profile_images"
    and "base64_to_pil_each w chapters = Inr chapter_images"
    and "base64_to_pil_each w pages = Inr page_images"
    and \<open>\<And>m c g. generate_content w m c g =
           Inr (Response (Inr (py_str ''{"important_pages": ["p1","p2"]}'')))\<close>
  shows "fst (detect_important_pages w profiles chapters pages prompt instructions) =
           Inr (PyDict [(py_str ''total_tokens'', PyInt 0),
                        (py_str ''parsed_response'',
                         PyList [PyStr (py_str ''p1''), PyStr (py_str ''p2'')])])"
  using detect_important_pages_text [OF assms, of prompt instructions]
  by (simp add: json_loads_pages py_get_def detection_result_def)

text \<open>
  The theorem in a world whose model returns that text.
\<close>

theorem pages_round_trip_witness:
  \<open>fst (detect_important_pages
          (world_returning (py_str ''{"important_pages": ["p1","p2"]}'')) [] [] [] [] []) =
     Inr (PyDict [(py_str ''total_tokens'', PyInt 0),
                  (py_str ''parsed_response'',
                   PyList [PyStr (py_str ''p1''), PyStr (py_str ''p2'')])])\<close>
  using pages_round_trip [of \<open>world_returning (py_str ''{"important_pages": ["p1","p2"]}'')\<close>
      "py_str ''key''" "[]" "[]" "[]" "[]" "[]" "[]" "[]" "[]"]
  by (simp add: world_eval py_str_def)

text \<open>
  C7. When the model returns the empty object \<open>{}\<close>, the \<open>parsed_response\<close> of
  both \<open>detect_important_pages\<close> and \<open>get_important_panels\<close> is the empty list.
\<close>

theorem missing_key_default:
  assumes "environ w (py_str ''GOOGLE_API_KEY'') = Some api_key" and "api_key \<noteq> []"
    and "base64_to_pil_each w profiles = Inr profile_images"
    and "base64_to_pil_each w chapters = Inr chapter_images"
    and "base64_to_pil_each w pages = Inr page_images"
    and "\<And>m c g. generate_content w m c g = Inr (Response (Inr (py_str ''{}'')))"
  shows "fst (detect_important_pages w profiles chapters pages prompt instructions) =
           Inr (PyDict [(py_str ''total_tokens'', PyInt 0),
                        (py_str ''parsed_response'', PyList [])])
         \<and> fst (get_important_panels w profiles pages prompt instructions) =
           Inr (PyDict [(py_str ''total_tokens'', PyInt 0),
                        (py_str ''parsed_response'', PyList [])])"
  using detect_important_pages_text [OF assms, of prompt instructions]
    get_important_panels_text [OF assms(1-3) assms(5,6), of prompt instructions]
  by (simp add: json_loads_empty_object py_get_def detection_result_def)

text \<open>
  The theorem in a world whose model returns \<open>{}\<close>.
\<close>

theorem missing_key_default_witness:
  "fst (detect_important_pages (world_returning (py_str ''{}'')) [] [] [] [] []) =
     Inr (PyDict [(py_str ''total_tokens'', PyInt 0), (py_str ''parsed_response'', PyList [])])
   \<and> fst (get_important_panels (world_returning (py_str ''{}'')) [] [] [] []) =
     Inr (PyDict [(py_str ''total_tokens'', PyInt 0), (py_str ''parsed_response'', PyList [])])"
  using missing_key_default [of "world_returning (py_str ''{}'')"
      "py_str ''key''" "[]" "[]" "[]" "[]" "[]" "[]" "[]" "[]"]
  by (simp add: world_eval py_str_def)

text \<open>
  C8. When the model returns \<open>noise {"important_panels": ["a"]} trailing\<close>, the text
  is not valid JSON as a whole, the search finds the embedded object, and
  \<open>get_important_panels\<close> returns the list of \<open>a\<close> as \<open>parsed_response\<close>.
\<close>

theorem panels_recover_embedded_object:
  assumes "environ w (py_str ''GOOGLE_API_KEY'') = Some api_key" and "api_key \<noteq> []"
    and "base64_to_pil_each w profiles = Inr profile_images"
    and "base64_to_pil_each w panels = Inr panel_images"
    and \<open>\<And>m c g. generate_content w m c g =
           Inr (Response (Inr (py_str ''noise {"important_panels": ["a"]} trailing'')))\<close>
  shows \<open>json_loads (python w) (py_str ''noise {"important_panels": ["a"]} trailing'') =
           Inl (JSONDecodeError_msg ''Expecting value'')
         \<and> re_search (py_str ''noise {"important_panels": ["a"]} trailing'') =
           Some (py_str ''{"important_panels": ["a"]}'')
         \<and> fst (get_important_panels w profiles panels prompt instructions) =
           Inr (PyDict [(py_str ''total_tokens'', PyInt 0),
                        (py_str ''parsed_response'', PyList [PyStr (py_str ''a'')])])\<close>
  using get_important_panels_text [OF assms, of prompt instructions]
  by (simp add: json_loads_noise re_search_noise json_loads_panels py_get_def
      detection_result_def)

text \<open>
  The theorem in a world whose model returns that text.
\<close>

theorem panels_recover_embedded_object_witness:
  \<open>fst (get_important_panels
          (world_returning (py_str ''noise {"important_panels": ["a"]} trailing'')) [] [] [] []) =
     Inr (PyDict [(py_str ''total_tokens'', PyInt 0),
                  (py_str ''parsed_response'', PyList [PyStr (py_str ''a'')])])\<close>
  using panels_recover_embedded_object
    [of \<open>world_returning (py_str ''noise {"important_panels": ["a"]} trailing'')\<close>
      "py_str ''key''" "[]" "[]" "[]" "[]" "[]" "[]"]
  by (simp add: world_eval py_str_def)

text \<open>
  C9, as amended. When the strict parse of the text fails with a
  \<open>JSONDecodeError\<close>, \<open>detect_important_pages\<close> takes the text from the first opening
  brace to the last closing brace and parses that; whenever the parse of this
  substring returns a value, the value is an object and the operation returns the
  \<open>important_pages\<close> of that object, or the empty list when the key is absent.
\<close>

theorem pages_fallback_first_to_last:
  assumes "environ w (py_str ''GOOGLE_API_KEY'') = Some api_key" and "api_key \<noteq> []"
    and "base64_to_pil_each w profiles = Inr profile_images"
    and "base64_to_pil_each w chapters = Inr chapter_images"
    and "base64_to_pil_each w pages = Inr page_images"
    and "\<And>m c g. generate_content w m c g = Inr (Response (Inr response_text))"
    and "json_loads (python w) response_text = Inl e"
    and "isinstance_JSONDecodeError e"
    and "response_text = pre @ ch CHR ''{'' # mid @ ch CHR ''}'' # post"
    and "ch CHR ''{'' \<notin> set pre" and "ch CHR ''}'' \<notin> set post"
    and "json_loads (python w) (ch CHR ''{'' # mid @ [ch CHR ''}'']) = Inr v"
  shows "re_search response_text = Some (ch CHR ''{'' # mid @ [ch CHR ''}''])
         \<and> (\<exists>d. v = PyDict d
              \<and> fst (detect_important_pages w profiles chapters pages prompt instructions) =
                  Inr (PyDict [(py_str ''total_tokens'', PyInt 0),
                               (py_str ''parsed_response'',
                                case map_of d (py_str ''important_pages'') of
                                  Some found \<Rightarrow> found
                                | None \<Rightarrow> PyList [])]))"
proof -
  have found: "re_search response_text = Some (ch CHR ''{'' # mid @ [ch CHR ''}''])"
    unfolding assms(9) by (rule re_search_first_to_last [OF assms(10,11)])
  from json_loads_object [OF assms(12)] obtain d where d: "v = PyDict d" ..
  show ?thesis
    using detect_important_pages_text [OF assms(1-6), of prompt instructions]
    by (simp add: found assms(7,8) assms(12) d py_get_def detection_result_def)
qed

text \<open>
  The theorem at a text with a closing brace before the first opening brace and an
  opening brace after the last closing brace.
\<close>

theorem pages_fallback_first_to_last_witness:
  \<open>re_search (py_str ''x} {"important_pages": ["p1"]} {y'') =
     Some (py_str ''{"important_pages": ["p1"]}'')
   \<and> fst (detect_important_pages
          (world_returning (py_str ''x} {"important_pages": ["p1"]} {y'')) [] [] [] [] []) =
       Inr (PyDict [(py_str ''total_tokens'', PyInt 0),
                    (py_str ''parsed_response'', PyList [PyStr (py_str ''p1'')])])\<close>
proof -
  have strict: \<open>json_loads default_interpreter (py_str ''x} {"important_pages": ["p1"]} {y'') =
      Inl (JSONDecodeError_msg ''Expecting value'')\<close>
    by (simp add: json_eval default_interpreter_def)
  have split: \<open>py_str ''x} {"important_pages": ["p1"]} {y'' =
      py_str ''x} '' @ ch CHR ''{'' # py_str ''"important_pages": ["p1"]'' @ ch CHR ''}'' # py_str '' {y''\<close>
    by (simp add: py_str_def ch_def)
  have inner: \<open>json_loads default_interpreter
      (ch CHR ''{'' # py_str ''"important_pages": ["p1"]'' @ [ch CHR ''}'']) =
      Inr (PyDict [(py_str ''important_pages'', PyList [PyStr (py_str ''p1'')])])\<close>
    by (simp add: json_eval default_interpreter_def)
  have "ch CHR ''{'' \<notin> set (py_str ''x} '')" and "ch CHR ''}'' \<notin> set (py_str '' {y'')"
    by (simp_all add: py_str_def ch_def)
  with strict split inner show ?thesis
    using pages_fallback_first_to_last
      [of \<open>world_returning (py_str ''x} {"important_pages": ["p1"]} {y'')\<close>
        "py_str ''key''" "[]" "[]" "[]" "[]" "[]" "[]"
        \<open>py_str ''x} {"important_pages": ["p1"]} {y''\<close>
        "JSONDecodeError_msg ''Expecting value''"
        "py_str ''x} ''" \<open>py_str ''"important_pages": ["p1"]''\<close> "py_str '' {y''"
        \<open>PyDict [(py_str ''important_pages'', PyList [PyStr (py_str ''p1'')])]\<close>
        "[]" "[]"]
    by (simp add: world_eval py_str_def ch_def)
qed

text \<open>
  C9 as written takes the substring to end at the closing brace that matches the
  first opening brace. On a response of two objects the strict parse fails with a
  \<open>JSONDecodeError\<close>, the
  substring of the specification is the first object, which is valid JSON, and yet
  the operation raises: the pattern is greedy, the substring it finds runs to the
  end of the second object and is not valid JSON.
\<close>

theorem pages_first_matching_brace_counterexample:
  \<open>json_loads default_interpreter (py_str ''{"important_pages": ["p1"]} {"x": 1}'') =
     Inl (JSONDecodeError_msg ''Extra data'')
   \<and> first_brace_delimited_spec (py_str ''{"important_pages": ["p1"]} {"x": 1}'') =
     Some (py_str ''{"important_pages": ["p1"]}'')
   \<and> json_loads default_interpreter (py_str ''{"important_pages": ["p1"]}'') =
     Inr (PyDict [(py_str ''important_pages'', PyList [PyStr (py_str ''p1'')])])
   \<and> fst (detect_important_pages
          (world_returning (py_str ''{"important_pages": ["p1"]} {"x": 1}'')) [] [] [] [] []) =
     Inl (JSONDecodeError_msg ''Extra data'')\<close>
  by (simp add: detect_important_pages_def get_gemini_model_def world_eval json_eval
      re_match_def first_brace_delimited_spec_def isinstance_JSONDecodeError_def)

text \<open>
  C10. When the text of the response is valid JSON but not an object, both
  \<open>detect_important_pages\<close> and \<open>get_important_panels\<close> raise an
  \<open>AttributeError\<close> where they read the field of the parsed value; neither returns
  a result, and \<open>detect_important_pages\<close> does not print the diagnostic of the
  failed parse.
\<close>

theorem non_object_raises:
  assumes "environ w (py_str ''GOOGLE_API_KEY'') = Some api_key" and "api_key \<noteq> []"
    and "base64_to_pil_each w profiles = Inr profile_images"
    and "base64_to_pil_each w chapters = Inr chapter_images"
    and "base64_to_pil_each w pages = Inr page_images"
    and "\<And>m c g. generate_content w m c g = Inr (Response (Inr response_text))"
    and "json_loads (python w) response_text = Inr v"
    and "\<And>d. v \<noteq> PyDict d"
  shows "fst (detect_important_pages w profiles chapters pages prompt instructions) =
           Inl (no_attribute v ''get'')
         \<and> fst (get_important_panels w profiles pages prompt instructions) =
           Inl (no_attribute v ''get'')
         \<and> exc_type (no_attribute v ''get'') = AttributeError
         \<and> Print (py_str ''Failed to parse JSON from Gemini response.'')
             \<notin> set (snd (detect_important_pages w profiles chapters pages prompt instructions))"
proof -
  have get: "py_get v key dflt = Inl (no_attribute v ''get'')" for key dflt
    using assms(8) by (cases v) (auto simp: py_get_def)
  from get_gemini_model_set [OF assms(1,2)] obtain name
    where model: "get_gemini_model w = (Inr (GenerativeModel name), [Configure api_key])" ..
  have "Print (py_str ''Failed to parse JSON from Gemini response.'')
      \<notin> set (snd (detect_important_pages w profiles chapters pages prompt instructions))"
    using assms(3-7) model
    by (simp add: detect_important_pages_def Let_def get)
  then show ?thesis
    using detect_important_pages_text [OF assms(1-6), of prompt instructions]
      get_important_panels_text [OF assms(1-3) assms(5,6), of prompt instructions]
    by (simp add: assms(7) get no_attribute_def)
qed

text \<open>
  The theorem at the text of a JSON array.
\<close>

theorem non_object_raises_witness:
  \<open>fst (detect_important_pages (world_returning (py_str ''["p1"]'')) [] [] [] [] []) =
     Inl (PyExc AttributeError (py_str [CHR 0x27] @ py_str ''list'' @ py_str [CHR 0x27]
            @ py_str '' object has no attribute '' @ py_str [CHR 0x27] @ py_str ''get''
            @ py_str [CHR 0x27]))
   \<and> fst (get_important_panels (world_returning (py_str ''["p1"]'')) [] [] [] []) =
     Inl (PyExc AttributeError (py_str [CHR 0x27] @ py_str ''list'' @ py_str [CHR 0x27]
            @ py_str '' object has no attribute '' @ py_str [CHR 0x27] @ py_str ''get''
            @ py_str [CHR 0x27]))\<close>
  using json_loads_list [of default_interpreter]
    non_object_raises [of \<open>world_returning (py_str ''["p1"]'')\<close> "py_str ''key''"
      "[]" "[]" "[]" "[]" "[]" "[]" \<open>py_str ''["p1"]''\<close> "PyList [PyStr (py_str ''p1'')]"
      "[]" "[]"]
  by (simp add: world_eval py_str_def no_attribute_def type_name_def)

end
